theory Spec2Isabelle
  imports Complex_Main
begin

section \<open>The LLM router of \<^verbatim>\<open>02_llm_router/llm_router.py\<close>\<close>

text \<open>
  The router keeps three dictionaries: the provider backends, one metrics record per
  provider and the response cache. \<^verbatim>\<open>LLMRouter.query\<close> tries the candidate providers in
  order under one lock, \<^verbatim>\<open>LLMRouter.health_check\<close> probes every backend. The model is
  sequential (the lock serialises the callers); a call takes the router state and returns
  its outcome, the new state and the list of backends it invoked, in order.

  Conventions of the model:
  \<^item> Python \<^verbatim>\<open>float\<close> is read as \<open>real\<close>: \<^verbatim>\<open>+=\<close> on \<^verbatim>\<open>total_cost\<close> is exact addition and
    \<^verbatim>\<open>requests_success / requests_total\<close> the exact quotient (Python returns the nearest
    double of it). Nothing below depends on rounding.
  \<^item> The temperature of a query is the one number that is printed, not computed with:
    \<^verbatim>\<open>Query.hash\<close> formats the object it was given. It is therefore a \<open>pynumber\<close>, which
    keeps what the printed form shows and the value does not: whether the object is an
    \<^verbatim>\<open>int\<close> or a \<^verbatim>\<open>float\<close>, and the sign of a float zero.
  \<^item> An exception raised by a backend is the string \<^verbatim>\<open>str(e)\<close> of its message.
  \<^item> \<^verbatim>\<open>hashlib.md5(...).hexdigest()\<close> and the formatting of a float inside an f-string are
    library code: they are the two fields of \<open>builtins\<close>, a parameter of every function
    that computes a fingerprint.
  \<^item> \<^verbatim>\<open>self.providers\<close> and \<^verbatim>\<open>self.metrics\<close> are built by \<^verbatim>\<open>__init__\<close> with one entry for
    each member of the closed enum \<^verbatim>\<open>ProviderName\<close> and no method removes a key: they are
    total functions on \<open>ProviderName\<close>. The cache is a partial map.
\<close>

subsection \<open>Data model\<close>

datatype ProviderName = GEMINI | CLAUDE | OPENAI

datatype ProviderStatus = HEALTHY | DEGRADED | UNHEALTHY

record ProviderMetrics =
  name :: ProviderName
  status :: ProviderStatus
  requests_total :: int
  requests_success :: int
  requests_failed :: int
  total_cost :: real
  avg_latency_ms :: real
  last_error :: "string option"
  last_checked :: string

text \<open>
  The numbers a caller passes as \<^verbatim>\<open>temperature\<close>: an \<^verbatim>\<open>int\<close> (accepted where a \<^verbatim>\<open>float\<close> is
  annotated) or a \<^verbatim>\<open>float\<close>. A float is its real value, except that zero has a sign:
  \<open>Float 0\<close> is \<^verbatim>\<open>0.0\<close> and \<open>NegZero\<close> is \<^verbatim>\<open>-0.0\<close>. \<open>py_eq\<close> is Python's \<^verbatim>\<open>==\<close> on
  such numbers, the comparison of their values: \<^verbatim>\<open>1 == 1.0\<close> and \<^verbatim>\<open>0.0 == -0.0\<close> hold.
\<close>

datatype pyfloat = Float real | NegZero

datatype pynumber = PyInt int | PyFloat pyfloat




record Query =
  "text" :: string
  model :: "string option"
  temperature :: pynumber
  max_tokens :: int
  system_prompt :: "string option"

text \<open>The field \<^verbatim>\<open>text\<close> of \<^verbatim>\<open>Response\<close> is \<open>response_text\<close>: \<open>text\<close> is the field of \<open>Query\<close>.\<close>

record Response =
  response_text :: string
  provider :: ProviderName
  tokens_used :: int
  cost :: real
  latency_ms :: real
  timestamp :: string

text \<open>
  A backend (\<^verbatim>\<open>ProviderBackend\<close>): \<^verbatim>\<open>query\<close> returns a response or raises, \<^verbatim>\<open>health_check\<close>
  returns a boolean or raises.
\<close>

record ProviderBackend =
  backend_query :: "Query \<Rightarrow> string + Response"
  backend_health_check :: "string + bool"
  cost_per_1k_tokens :: real

record LLMRouter =
  providers :: "ProviderName \<Rightarrow> ProviderBackend"
  metrics :: "ProviderName \<Rightarrow> ProviderMetrics"
  cache :: "string \<rightharpoonup> Response"

datatype error = RuntimeError string

record builtins =
  md5_hexdigest :: "string \<Rightarrow> string"
  str_float :: "pyfloat \<Rightarrow> string"

text \<open>The keyword arguments of \<^verbatim>\<open>LLMRouter.query\<close>, passed on to \<^verbatim>\<open>Query(text=text, **kwargs)\<close>:
  \<open>None\<close> is an argument that is not given.\<close>

record QueryKwargs =
  kw_model :: "string option"
  kw_temperature :: "pynumber option"
  kw_max_tokens :: "int option"
  kw_system_prompt :: "string option"

subsection \<open>ProviderMetrics: derived properties\<close>

definition success_rate :: "ProviderMetrics \<Rightarrow> real" where
  "success_rate m =
     (if requests_total m = 0 then 1
      else real_of_int (requests_success m) / real_of_int (requests_total m))"

definition availability :: "ProviderMetrics \<Rightarrow> real" where
  "availability m =
     (if status m = UNHEALTHY then 0
      else if status m = DEGRADED then 1 / 2
      else success_rate m)"

text \<open>\<^verbatim>\<open>ProviderMetrics(name=name)\<close>, every other field at its default; \<open>now\<close> is the
  clock reading of the default factory of \<^verbatim>\<open>last_checked\<close>.\<close>

definition ProviderMetrics_init :: "string \<Rightarrow> ProviderName \<Rightarrow> ProviderMetrics" where
  "ProviderMetrics_init now p =
     \<lparr>name = p, status = HEALTHY, requests_total = 0, requests_success = 0,
      requests_failed = 0, total_cost = 0, avg_latency_ms = 0, last_error = None,
      last_checked = now\<rparr>"

subsection \<open>Query and its fingerprint\<close>

definition Query_init :: "string \<Rightarrow> QueryKwargs \<Rightarrow> Query" where
  "Query_init t kw =
     \<lparr>text = t,
      model = kw_model kw,
      temperature = (case kw_temperature kw of None \<Rightarrow> PyFloat (Float (7 / 10)) | Some x \<Rightarrow> x),
      max_tokens = (case kw_max_tokens kw of None \<Rightarrow> 2000 | Some n \<Rightarrow> n),
      system_prompt = kw_system_prompt kw\<rparr>"

text \<open>\<^verbatim>\<open>str\<close> of a Python integer, as the f-string of \<^verbatim>\<open>Query.hash\<close> formats \<^verbatim>\<open>max_tokens\<close>.\<close>

fun str_nat :: "nat \<Rightarrow> string" where
  "str_nat n =
     (if n < 10 then [''0123456789'' ! n]
      else str_nat (n div 10) @ [''0123456789'' ! (n mod 10)])"

definition str_int :: "int \<Rightarrow> string" where
  "str_int i = (if i < 0 then CHR ''-'' # str_nat (nat (- i)) else str_nat (nat i))"

text \<open>What an f-string puts for \<^verbatim>\<open>{self.temperature}\<close>: \<^verbatim>\<open>str\<close> of the object, the decimal
  digits of an \<^verbatim>\<open>int\<close> and the library's \<^verbatim>\<open>repr\<close> of a \<^verbatim>\<open>float\<close>.\<close>

fun format_number :: "builtins \<Rightarrow> pynumber \<Rightarrow> string" where
  "format_number B (PyInt i) = str_int i"
| "format_number B (PyFloat f) = str_float B f"

text \<open>\<^verbatim>\<open>Query.hash\<close>: the digest of \<^verbatim>\<open>f"{self.text}_{self.temperature}_{self.max_tokens}"\<close>.\<close>

definition hash :: "builtins \<Rightarrow> Query \<Rightarrow> string" where
  "hash B q =
     md5_hexdigest B
       (text q @ ''_'' @ format_number B (temperature q) @ ''_'' @ str_int (max_tokens q))"

subsection \<open>LLMRouter.query\<close>

definition get_default_providers :: "ProviderName list" where
  "get_default_providers = [GEMINI, CLAUDE, OPENAI]"

text \<open>The metrics update of the \<^verbatim>\<open>try\<close> body after a backend has answered (lines 301-303)
  and the one of the \<^verbatim>\<open>except\<close> handler (lines 313-314).\<close>

definition on_success :: "Response \<Rightarrow> ProviderMetrics \<Rightarrow> ProviderMetrics" where
  "on_success response m =
     m\<lparr>requests_total := requests_total m + 1,
       requests_success := requests_success m + 1,
       total_cost := total_cost m + cost response\<rparr>"

definition on_failure :: "string \<Rightarrow> ProviderMetrics \<Rightarrow> ProviderMetrics" where
  "on_failure e m =
     m\<lparr>requests_failed := requests_failed m + 1,
       last_error := Some e\<rparr>"

text \<open>
  The \<^verbatim>\<open>for provider_name in providers\<close> loop. \<open>all\<close> is the whole list \<^verbatim>\<open>providers\<close>, read
  by \<^verbatim>\<open>providers[-1]\<close> in the handler (the loop is entered on a suffix of \<open>all\<close>, so \<open>all\<close>
  is not empty where \<open>last all\<close> is read); the list argument is what is left to iterate.
  When the iteration ends without a return or a raise, the statement after the loop raises
  \<^verbatim>\<open>RuntimeError("No providers available")\<close>. The third component of the result lists the
  backends whose \<^verbatim>\<open>query\<close> was called.
\<close>

fun try_providers ::
  "builtins \<Rightarrow> Query \<Rightarrow> ProviderName list \<Rightarrow> ProviderName list \<Rightarrow> LLMRouter
     \<Rightarrow> (error + Response) \<times> LLMRouter \<times> ProviderName list" where
  "try_providers B q all [] s = (Inl (RuntimeError ''No providers available''), s, [])"
| "try_providers B q all (provider_name # rest) s =
     (case backend_query (providers s provider_name) q of
        Inr response \<Rightarrow>
          (Inr response,
           s\<lparr>metrics := (metrics s)(provider_name := on_success response (metrics s provider_name)),
             cache := (cache s)(hash B q \<mapsto> response)\<rparr>,
           [provider_name])
      | Inl e \<Rightarrow>
          (let s' = s\<lparr>metrics := (metrics s)(provider_name := on_failure e (metrics s provider_name))\<rparr>
           in if provider_name = last all
              then (Inl (RuntimeError (''All providers failed: '' @ e)), s', [provider_name])
              else (case try_providers B q all rest s' of
                      (res, s'', invoked) \<Rightarrow> (res, s'', provider_name # invoked))))"

text \<open>The cache check (lines 284-288): the cached response when \<^verbatim>\<open>use_cache\<close> is set and the
  fingerprint is a key of the cache. The provider list (lines 291-292): the argument, or the
  default order when the argument is \<^verbatim>\<open>None\<close>.\<close>

definition cache_lookup :: "builtins \<Rightarrow> LLMRouter \<Rightarrow> bool \<Rightarrow> Query \<Rightarrow> Response option" where
  "cache_lookup B s use_cache q = (if use_cache then cache s (hash B q) else None)"

definition candidates :: "ProviderName list option \<Rightarrow> ProviderName list" where
  "candidates providers_arg =
     (case providers_arg of None \<Rightarrow> get_default_providers | Some ps \<Rightarrow> ps)"

definition query ::
  "builtins \<Rightarrow> LLMRouter \<Rightarrow> string \<Rightarrow> ProviderName list option \<Rightarrow> bool \<Rightarrow> QueryKwargs
     \<Rightarrow> (error + Response) \<times> LLMRouter \<times> ProviderName list" where
  "query B s t providers_arg use_cache kwargs =
     (let q = Query_init t kwargs
      in case cache_lookup B s use_cache q of
           Some cached \<Rightarrow> (Inr cached, s, [])
         | None \<Rightarrow> try_providers B q (candidates providers_arg) (candidates providers_arg) s)"

subsection \<open>LLMRouter.health_check and clear_cache\<close>

text \<open>The dictionary \<^verbatim>\<open>self.providers\<close> is iterated in insertion order, the order of
  \<^verbatim>\<open>__init__\<close>. The result is the dictionary \<^verbatim>\<open>health\<close>, the new state and the list of the
  backends probed.\<close>

definition provider_names :: "ProviderName list" where
  "provider_names = [GEMINI, CLAUDE, OPENAI]"

fun health_check_loop ::
  "ProviderName list \<Rightarrow> (ProviderName \<rightharpoonup> bool) \<Rightarrow> LLMRouter
     \<Rightarrow> (ProviderName \<rightharpoonup> bool) \<times> LLMRouter \<times> ProviderName list" where
  "health_check_loop [] health s = (health, s, [])"
| "health_check_loop (provider_name # rest) health s =
     (case backend_health_check (providers s provider_name) of
        Inr is_healthy \<Rightarrow>
          (case health_check_loop rest (health(provider_name \<mapsto> is_healthy))
                  (s\<lparr>metrics := (metrics s)(provider_name :=
                       (metrics s provider_name)\<lparr>status := (if is_healthy then HEALTHY else UNHEALTHY)\<rparr>)\<rparr>) of
             (h, s', probed) \<Rightarrow> (h, s', provider_name # probed))
      | Inl e \<Rightarrow>
          (case health_check_loop rest (health(provider_name \<mapsto> False))
                  (s\<lparr>metrics := (metrics s)(provider_name :=
                       (metrics s provider_name)\<lparr>status := UNHEALTHY\<rparr>)\<rparr>) of
             (h, s', probed) \<Rightarrow> (h, s', provider_name # probed)))"

definition health_check ::
  "LLMRouter \<Rightarrow> (ProviderName \<rightharpoonup> bool) \<times> LLMRouter \<times> ProviderName list" where
  "health_check s = health_check_loop provider_names Map.empty s"

definition clear_cache :: "LLMRouter \<Rightarrow> LLMRouter" where
  "clear_cache s = s\<lparr>cache := Map.empty\<rparr>"

subsection \<open>Construction and sequences of calls\<close>

text \<open>
  \<^verbatim>\<open>LLMRouter.__init__\<close> when no metrics file has been saved (\<^verbatim>\<open>_load_metrics\<close> then changes
  nothing): fresh metrics for every provider and an empty cache. \<open>backends\<close> stands for the
  dictionary of backends; the three simulated backends of the module are not modelled, so
  that every statement holds for them and for whatever a test patches in.
\<close>

definition LLMRouter_init :: "(ProviderName \<Rightarrow> ProviderBackend) \<Rightarrow> string \<Rightarrow> LLMRouter" where
  "LLMRouter_init backends now =
     \<lparr>providers = backends, metrics = ProviderMetrics_init now, cache = Map.empty\<rparr>"

text \<open>
  What a client does to a router between its construction and a later state: calls of the
  three public methods that write state, and the replacement of a backend (as the tests do
  with \<^verbatim>\<open>patch.object\<close>). A client that catches the exception of \<^verbatim>\<open>query\<close> goes on with the
  state the call left, so the outcome is dropped here.
\<close>

datatype call =
    Call_query string "ProviderName list option" bool QueryKwargs
  | Call_health_check
  | Call_clear_cache
  | Set_backend ProviderName ProviderBackend

fun call_state :: "builtins \<Rightarrow> LLMRouter \<Rightarrow> call \<Rightarrow> LLMRouter" where
  "call_state B s (Call_query t providers_arg use_cache kwargs) =
     fst (snd (query B s t providers_arg use_cache kwargs))"
| "call_state B s Call_health_check = fst (snd (health_check s))"
| "call_state B s Call_clear_cache = clear_cache s"
| "call_state B s (Set_backend p b) = s\<lparr>providers := (providers s)(p := b)\<rparr>"

definition run_calls :: "builtins \<Rightarrow> LLMRouter \<Rightarrow> call list \<Rightarrow> LLMRouter" where
  "run_calls B s cs = foldl (call_state B) s cs"

subsection \<open>Concrete backends and states of the examples\<close>

text \<open>
  The closed examples that use \<open>ex_builtins\<close> fix the two library functions: the digest is
  the identity on the formatted string and every float is printed as \<^verbatim>\<open>0.7\<close>. None of them
  depends on the choice: each compares a fingerprint with itself only.
\<close>

definition ex_builtins :: builtins where
  "ex_builtins = \<lparr>md5_hexdigest = (\<lambda>content. content), str_float = (\<lambda>x. ''0.7'')\<rparr>"






definition no_kwargs :: QueryKwargs where
  "no_kwargs = \<lparr>kw_model = None, kw_temperature = None, kw_max_tokens = None,
                 kw_system_prompt = None\<rparr>"

definition ex_response :: "ProviderName \<Rightarrow> Response" where
  "ex_response p =
     \<lparr>response_text = ''ok'', provider = p, tokens_used = 2, cost = 1 / 50,
      latency_ms = 150, timestamp = ''t1''\<rparr>"

text \<open>A backend that answers every query and probe, and one whose \<^verbatim>\<open>query\<close> and
  \<^verbatim>\<open>health_check\<close> raise \<^verbatim>\<open>Exception(e)\<close> (what \<^verbatim>\<open>patch.object(..., side_effect=...)\<close> gives).\<close>

definition answering :: "ProviderName \<Rightarrow> ProviderBackend" where
  "answering p =
     \<lparr>backend_query = (\<lambda>q. Inr (ex_response p)), backend_health_check = Inr True,
      cost_per_1k_tokens = 1 / 100\<rparr>"

definition raising :: "string \<Rightarrow> ProviderBackend" where
  "raising e =
     \<lparr>backend_query = (\<lambda>q. Inl e), backend_health_check = Inl e,
      cost_per_1k_tokens = 1 / 100\<rparr>"

text \<open>All three backends answer; only Claude raises; only Gemini raises; all raise.\<close>

definition all_up :: LLMRouter where
  "all_up = LLMRouter_init answering ''t0''"

definition claude_down :: LLMRouter where
  "claude_down = LLMRouter_init (answering(CLAUDE := raising ''boom'')) ''t0''"

definition gemini_down :: LLMRouter where
  "gemini_down = LLMRouter_init (answering(GEMINI := raising ''boom'')) ''t0''"

definition all_down :: LLMRouter where
  "all_down = LLMRouter_init (\<lambda>p. raising ''boom'') ''t0''"

text \<open>A router whose cache already holds an answer of OpenAI for the query \<^verbatim>\<open>"hi"\<close>.\<close>

definition hi_cached :: "(ProviderName \<Rightarrow> ProviderBackend) \<Rightarrow> LLMRouter" where
  "hi_cached backends =
     (LLMRouter_init backends ''t0'')
       \<lparr>cache := [hash ex_builtins (Query_init ''hi'' no_kwargs) \<mapsto> ex_response OPENAI]\<rparr>"

section \<open>Properties of the candidate loop and of the health sweep\<close>

text \<open>
  What the loop leaves alone, whatever it is given: the backends, every status and name,
  and for every provider the difference between \<open>requests_total\<close> and \<open>requests_success\<close>
  (the success branch adds one to both, the failure branch touches neither).
\<close>

lemma try_providers_frame:
  "try_providers B q all ps s = (res, s', invoked) \<Longrightarrow>
     providers s' = providers s \<and>
     (\<forall>x. status (metrics s' x) = status (metrics s x) \<and>
          name (metrics s' x) = name (metrics s x) \<and>
          requests_total (metrics s' x) - requests_success (metrics s' x)
            = requests_total (metrics s x) - requests_success (metrics s x))"
proof (induction ps arbitrary: s res s' invoked)
  case Nil
  then show ?case by simp
next
  case (Cons p ps)
  show ?case
  proof (cases "backend_query (providers s p) q")
    case (Inr response)
    with Cons.prems show ?thesis
      by (auto simp: on_success_def)
  next
    case (Inl e)
    let ?s1 = "s\<lparr>metrics := (metrics s)(p := on_failure e (metrics s p))\<rparr>"
    show ?thesis
    proof (cases "p = last all")
      case True
      with Inl Cons.prems show ?thesis
        by (auto simp: on_failure_def)
    next
      case False
      obtain r1 s1 i1 where rec: "try_providers B q all ps ?s1 = (r1, s1, i1)"
        by (cases "try_providers B q all ps ?s1") auto
      with Inl False Cons.prems have "s' = s1" by simp
      with Cons.IH [OF rec] show ?thesis
        by (auto simp: on_failure_def)
    qed
  qed
qed

lemma health_check_loop_spec:
  "health_check_loop ps health s = (h, s', probed) \<Longrightarrow>
     probed = ps \<and> providers s' = providers s \<and> cache s' = cache s \<and>
     (\<forall>x. h x = (if x \<in> set ps
                  then Some (case backend_health_check (providers s x) of Inr ok \<Rightarrow> ok | Inl e \<Rightarrow> False)
                  else health x)) \<and>
     (\<forall>x. metrics s' x =
            (if x \<in> set ps
             then (metrics s x)\<lparr>status :=
                    (case backend_health_check (providers s x) of
                       Inr ok \<Rightarrow> if ok then HEALTHY else UNHEALTHY | Inl e \<Rightarrow> UNHEALTHY)\<rparr>
             else metrics s x))"
proof (induction ps arbitrary: health s h s' probed)
  case Nil
  then show ?case by simp
next
  case (Cons p ps)
  show ?case
  proof (cases "backend_health_check (providers s p)")
    case (Inl e)
    let ?s1 = "s\<lparr>metrics := (metrics s)(p := (metrics s p)\<lparr>status := UNHEALTHY\<rparr>)\<rparr>"
    obtain h1 s1 p1 where rec: "health_check_loop ps (health(p \<mapsto> False)) ?s1 = (h1, s1, p1)"
      by (cases "health_check_loop ps (health(p \<mapsto> False)) ?s1") auto
    with Inl Cons.prems have eq: "h = h1" "s' = s1" "probed = p # p1" by simp_all
    from Cons.IH [OF rec] Inl eq show ?thesis
      by (auto split: sum.splits)
  next
    case (Inr ok)
    let ?s1 = "s\<lparr>metrics := (metrics s)(p := (metrics s p)\<lparr>status := (if ok then HEALTHY else UNHEALTHY)\<rparr>)\<rparr>"
    obtain h1 s1 p1 where rec: "health_check_loop ps (health(p \<mapsto> ok)) ?s1 = (h1, s1, p1)"
      by (cases "health_check_loop ps (health(p \<mapsto> ok)) ?s1") auto
    with Inr Cons.prems have eq: "h = h1" "s' = s1" "probed = p # p1" by simp_all
    from Cons.IH [OF rec] Inr eq show ?thesis
      by (auto split: sum.splits)
  qed
qed


lemma try_providers_first_success:
  assumes "\<forall>x\<in>set pre. isl (backend_query (providers s x) q)"
    and "backend_query (providers s p) q = Inr r"
    and "last all \<notin> set pre"
    and "try_providers B q all (pre @ p # post) s = (res, s', invoked)"
  shows "res = Inr r \<and> invoked = pre @ [p] \<and> cache s' = (cache s)(hash B q \<mapsto> r) \<and>
         (\<forall>x. requests_success (metrics s' x)
                = requests_success (metrics s x) + (if x = p then 1 else 0) \<and>
              requests_total (metrics s' x)
                = requests_total (metrics s x) + (if x = p then 1 else 0) \<and>
              requests_failed (metrics s' x)
                = requests_failed (metrics s x) + int (count_list pre x))"
  using assms
proof (induction pre arbitrary: s res s' invoked)
  case Nil
  then show ?case by (auto simp: on_success_def)
next
  case (Cons a pre)
  from Cons.prems(1) obtain e where e: "backend_query (providers s a) q = Inl e"
    by (cases "backend_query (providers s a) q") auto
  let ?s1 = "s\<lparr>metrics := (metrics s)(a := on_failure e (metrics s a))\<rparr>"
  from Cons.prems(3) have ne: "a \<noteq> last all" and nl: "last all \<notin> set pre" by auto
  obtain r1 s1 i1 where rec: "try_providers B q all (pre @ p # post) ?s1 = (r1, s1, i1)"
    by (cases "try_providers B q all (pre @ p # post) ?s1") auto
  with e ne Cons.prems(4) have eq: "res = r1" "s' = s1" "invoked = a # i1" by simp_all
  have f: "\<forall>x\<in>set pre. isl (backend_query (providers ?s1 x) q)"
    using Cons.prems(1) by simp
  have g: "backend_query (providers ?s1 p) q = Inr r"
    using Cons.prems(2) by simp
  from Cons.IH [OF f g nl rec] eq show ?case
    by (auto simp: on_failure_def)
qed

lemma try_providers_all_fail:
  assumes "\<forall>x\<in>set ps. backend_query (providers s x) q = Inl (err x)"
    and "ps \<noteq> []"
    and "distinct (done @ ps)"
    and "all = done @ ps"
    and "try_providers B q all ps s = (res, s', invoked)"
  shows "res = Inl (RuntimeError (''All providers failed: '' @ err (last all))) \<and>
         invoked = ps \<and> cache s' = cache s \<and>
         (\<forall>x. requests_failed (metrics s' x)
                = requests_failed (metrics s x) + (if x \<in> set ps then 1 else 0) \<and>
              requests_success (metrics s' x) = requests_success (metrics s x) \<and>
              requests_total (metrics s' x) = requests_total (metrics s x))"
  using assms
proof (induction ps arbitrary: s "done" res s' invoked)
  case Nil
  then show ?case by simp
next
  case (Cons a ps)
  have e: "backend_query (providers s a) q = Inl (err a)"
    using Cons.prems(1) by simp
  let ?s1 = "s\<lparr>metrics := (metrics s)(a := on_failure (err a) (metrics s a))\<rparr>"
  show ?case
  proof (cases "ps = []")
    case True
    with Cons.prems(4) have "last all = a" by simp
    with True e Cons.prems(5) show ?thesis
      by (auto simp: on_failure_def)
  next
    case False
    with Cons.prems(4) have la: "last all = last ps" by simp
    from False have "last ps \<in> set ps" by simp
    with Cons.prems(3) la have ne: "a \<noteq> last all" by auto
    obtain r1 s1 i1 where rec: "try_providers B q all ps ?s1 = (r1, s1, i1)"
      by (cases "try_providers B q all ps ?s1") auto
    with e ne Cons.prems(5) have eq: "res = r1" "s' = s1" "invoked = a # i1" by simp_all
    have f: "\<forall>x\<in>set ps. backend_query (providers ?s1 x) q = Inl (err x)"
      using Cons.prems(1) by simp
    have d: "distinct ((done @ [a]) @ ps)" using Cons.prems(3) by simp
    have al: "all = (done @ [a]) @ ps" using Cons.prems(4) by simp
    have na: "a \<notin> set ps" using Cons.prems(3) by simp
    from Cons.IH [OF f False d al rec] eq na show ?thesis
      by (auto simp: on_failure_def)
  qed
qed


lemma distinct_last_not_in_prefix:
  "distinct (pre @ p # post) \<Longrightarrow> last (pre @ p # post) \<notin> set pre"
proof -
  assume d: "distinct (pre @ p # post)"
  have "last (pre @ p # post) = last (p # post)" by simp
  moreover have "last (p # post) \<in> set (p # post)" by (rule last_in_set) simp
  ultimately show ?thesis using d by auto
qed


text \<open>The frame of a whole call of \<open>query\<close>, and the counters across a health sweep and across
  any sequence of calls.\<close>

lemma query_frame:
  "query B s t providers_arg use_cache kw = (res, s', invoked) \<Longrightarrow>
     providers s' = providers s \<and>
     (\<forall>x. status (metrics s' x) = status (metrics s x) \<and>
          requests_total (metrics s' x) - requests_success (metrics s' x)
            = requests_total (metrics s x) - requests_success (metrics s x))"
proof (cases "cache_lookup B s use_cache (Query_init t kw)")
  case None
  assume "query B s t providers_arg use_cache kw = (res, s', invoked)"
  with None have "try_providers B (Query_init t kw) (candidates providers_arg)
                    (candidates providers_arg) s = (res, s', invoked)"
    by (simp add: query_def)
  from try_providers_frame [OF this] show ?thesis by simp
next
  case (Some cached)
  assume "query B s t providers_arg use_cache kw = (res, s', invoked)"
  with Some show ?thesis by (auto simp: query_def)
qed

lemma health_check_counters:
  "health_check s = (h, s', probed) \<Longrightarrow>
     requests_total (metrics s' x) = requests_total (metrics s x) \<and>
     requests_success (metrics s' x) = requests_success (metrics s x)"
proof -
  assume "health_check s = (h, s', probed)"
  then have "health_check_loop provider_names Map.empty s = (h, s', probed)"
    by (simp add: health_check_def)
  from health_check_loop_spec [OF this] show ?thesis by simp
qed

lemma call_state_total_minus_success:
  "requests_total (metrics (call_state B s c) x) - requests_success (metrics (call_state B s c) x)
     = requests_total (metrics s x) - requests_success (metrics s x)"
proof (cases c)
  case (Call_query t providers_arg use_cache kw)
  obtain res s' invoked where q: "query B s t providers_arg use_cache kw = (res, s', invoked)"
    by (cases "query B s t providers_arg use_cache kw") auto
  from query_frame [OF q] q Call_query show ?thesis by simp
next
  case Call_health_check
  obtain h s' probed where q: "health_check s = (h, s', probed)"
    by (cases "health_check s") auto
  from health_check_counters [OF q] q Call_health_check show ?thesis by simp
next
  case Call_clear_cache
  then show ?thesis by (simp add: clear_cache_def)
next
  case (Set_backend p b)
  then show ?thesis by simp
qed

lemma run_calls_total_minus_success:
  "requests_total (metrics (run_calls B s cs) x) - requests_success (metrics (run_calls B s cs) x)
     = requests_total (metrics s x) - requests_success (metrics s x)"
  unfolding run_calls_def
proof (induction cs arbitrary: s)
  case Nil
  show ?case by simp
next
  case (Cons c cs)
  show ?case
    by (simp add: Cons.IH call_state_total_minus_success)
qed

text \<open>
  The handler compares the failed name with \<^verbatim>\<open>providers[-1]\<close> by value. When the candidate
  that raises carries the name of the last element, the call ends there, whatever is left
  in the list: with a name repeated at the end, the candidates in between are not tried.
\<close>

lemma try_providers_stops_at_name_of_last:
  assumes "backend_query (providers s p) q = Inl e"
    and "last all = p"
  shows "try_providers B q all (p # rest) s =
           (Inl (RuntimeError (''All providers failed: '' @ e)),
            s\<lparr>metrics := (metrics s)(p := on_failure e (metrics s p))\<rparr>, [p])"
  using assms by simp

section \<open>The claims\<close>

text \<open>
  Claim C1, as amended. For every list of pairwise distinct candidates (given, or the default
  order) and every call that the cache does not answer: when the candidates before \<open>p\<close> all
  raise and \<open>p\<close> answers \<open>r\<close>, \<open>query\<close> returns \<open>r\<close>, the backends invoked are exactly the
  candidates up to and including \<open>p\<close> (none after it), and \<open>requests_success\<close> has gone up
  by one for \<open>p\<close> and is unchanged for every other provider.
\<close>

theorem query_returns_first_success:
  assumes "candidates providers_arg = pre @ p # post"
    and "distinct (pre @ p # post)"
    and "\<forall>x\<in>set pre. isl (backend_query (providers s x) (Query_init t kw))"
    and "backend_query (providers s p) (Query_init t kw) = Inr r"
    and "cache_lookup B s use_cache (Query_init t kw) = None"
  shows "case query B s t providers_arg use_cache kw of
           (res, s', invoked) \<Rightarrow>
             res = Inr r \<and> invoked = pre @ [p] \<and>
             (\<forall>x. requests_success (metrics s' x)
                    = requests_success (metrics s x) + (if x = p then 1 else 0))"
proof -
  obtain res s' invoked where
    tp: "try_providers B (Query_init t kw) (pre @ p # post) (pre @ p # post) s = (res, s', invoked)"
    by (cases "try_providers B (Query_init t kw) (pre @ p # post) (pre @ p # post) s") auto
  from assms(1,5) tp have q: "query B s t providers_arg use_cache kw = (res, s', invoked)"
    by (simp add: query_def)
  from try_providers_first_success
         [OF assms(3) assms(4) distinct_last_not_in_prefix [OF assms(2)] tp] q
  show ?thesis by simp
qed

theorem query_returns_first_success_witness:
  "(case query ex_builtins gemini_down ''hi'' None True no_kwargs of
      (res, s', invoked) \<Rightarrow>
        res = Inr (ex_response CLAUDE) \<and> invoked = [GEMINI, CLAUDE] \<and>
        requests_success (metrics s' CLAUDE) = 1 \<and>
        requests_success (metrics s' GEMINI) = 0 \<and>
        requests_success (metrics s' OPENAI) = 0)"
proof -
  have c: "candidates None = [GEMINI] @ CLAUDE # [OPENAI]"
    by (simp add: candidates_def get_default_providers_def)
  have d: "distinct ([GEMINI] @ CLAUDE # [OPENAI])" by simp
  have f: "\<forall>x\<in>set [GEMINI]. isl (backend_query (providers gemini_down x) (Query_init ''hi'' no_kwargs))"
    by (simp add: gemini_down_def LLMRouter_init_def raising_def)
  have g: "backend_query (providers gemini_down CLAUDE) (Query_init ''hi'' no_kwargs) = Inr (ex_response CLAUDE)"
    by (simp add: gemini_down_def LLMRouter_init_def answering_def)
  have m: "cache_lookup ex_builtins gemini_down True (Query_init ''hi'' no_kwargs) = None"
    by (simp add: cache_lookup_def gemini_down_def LLMRouter_init_def)
  have z: "\<And>x. requests_success (metrics gemini_down x) = 0"
    by (simp add: gemini_down_def LLMRouter_init_def ProviderMetrics_init_def)
  from query_returns_first_success [OF c d f g m] z show ?thesis
    by (auto split: prod.splits)
qed

text \<open>
  Claim C1 as stated fails in two ways. A call answered from the cache returns the cached
  response (here one of OpenAI) although the only candidate, Gemini, would answer something
  else, and invokes nothing. And in the list Claude, Gemini, Claude with Claude raising, the
  handler finds the failed name equal to \<^verbatim>\<open>providers[-1]\<close> at the first position and raises:
  Gemini, which would answer, is never invoked.
\<close>

theorem query_first_success_counterexample:
  "fst (query ex_builtins (hi_cached answering) ''hi'' (Some [GEMINI]) True no_kwargs)
     = Inr (ex_response OPENAI) \<and>
   snd (snd (query ex_builtins (hi_cached answering) ''hi'' (Some [GEMINI]) True no_kwargs)) = [] \<and>
   backend_query (providers (hi_cached answering) GEMINI) (Query_init ''hi'' no_kwargs)
     = Inr (ex_response GEMINI) \<and>
   ex_response GEMINI \<noteq> ex_response OPENAI \<and>
   fst (query ex_builtins claude_down ''hi'' (Some [CLAUDE, GEMINI, CLAUDE]) False no_kwargs)
     = Inl (RuntimeError ''All providers failed: boom'') \<and>
   snd (snd (query ex_builtins claude_down ''hi'' (Some [CLAUDE, GEMINI, CLAUDE]) False no_kwargs))
     = [CLAUDE] \<and>
   backend_query (providers claude_down GEMINI) (Query_init ''hi'' no_kwargs)
     = Inr (ex_response GEMINI)"
  by (simp add: query_def cache_lookup_def candidates_def hi_cached_def claude_down_def
        LLMRouter_init_def answering_def raising_def ex_response_def)

text \<open>
  Claim C2, as amended. For every non-empty list of pairwise distinct candidates (given, or
  the default order) and every call that the cache does not answer: when every candidate
  raises, \<open>query\<close> raises \<^verbatim>\<open>RuntimeError\<close> with the message \<^verbatim>\<open>All providers failed:\<close> followed by
  the error of the last candidate, every candidate has been invoked once, in order, and
  \<open>requests_failed\<close> has gone up by exactly one for each candidate and is unchanged for
  every other provider.
\<close>

theorem query_all_candidates_fail:
  assumes "candidates providers_arg = ps"
    and "ps \<noteq> []"
    and "distinct ps"
    and "\<forall>x\<in>set ps. backend_query (providers s x) (Query_init t kw) = Inl (err x)"
    and "cache_lookup B s use_cache (Query_init t kw) = None"
  shows "case query B s t providers_arg use_cache kw of
           (res, s', invoked) \<Rightarrow>
             res = Inl (RuntimeError (''All providers failed: '' @ err (last ps))) \<and>
             invoked = ps \<and>
             (\<forall>x. requests_failed (metrics s' x)
                    = requests_failed (metrics s x) + (if x \<in> set ps then 1 else 0))"
proof -
  obtain res s' invoked where
    tp: "try_providers B (Query_init t kw) ps ps s = (res, s', invoked)"
    by (cases "try_providers B (Query_init t kw) ps ps s") auto
  from assms(1,5) tp have q: "query B s t providers_arg use_cache kw = (res, s', invoked)"
    by (simp add: query_def)
  have d: "distinct ([] @ ps)" using assms(3) by simp
  have a: "ps = [] @ ps" by simp
  from try_providers_all_fail [OF assms(4) assms(2) d a tp] q
  show ?thesis by simp
qed

theorem query_all_candidates_fail_witness:
  "(case query ex_builtins all_down ''hi'' (Some [CLAUDE, GEMINI]) True no_kwargs of
      (res, s', invoked) \<Rightarrow>
        res = Inl (RuntimeError ''All providers failed: boom'') \<and>
        invoked = [CLAUDE, GEMINI] \<and>
        requests_failed (metrics s' CLAUDE) = 1 \<and>
        requests_failed (metrics s' GEMINI) = 1 \<and>
        requests_failed (metrics s' OPENAI) = 0)"
proof -
  have c: "candidates (Some [CLAUDE, GEMINI]) = [CLAUDE, GEMINI]"
    by (simp add: candidates_def)
  have n: "[CLAUDE, GEMINI] \<noteq> []" by simp
  have d: "distinct [CLAUDE, GEMINI]" by simp
  have f: "\<forall>x\<in>set [CLAUDE, GEMINI].
             backend_query (providers all_down x) (Query_init ''hi'' no_kwargs) = Inl ((\<lambda>x. ''boom'') x)"
    by (simp add: all_down_def LLMRouter_init_def raising_def)
  have m: "cache_lookup ex_builtins all_down True (Query_init ''hi'' no_kwargs) = None"
    by (simp add: cache_lookup_def all_down_def LLMRouter_init_def)
  have z: "\<And>x. requests_failed (metrics all_down x) = 0"
    by (simp add: all_down_def LLMRouter_init_def ProviderMetrics_init_def)
  from query_all_candidates_fail [OF c n d f m] z show ?thesis
    by (auto split: prod.splits)
qed

text \<open>
  Claim C2 as stated fails in two ways. With the fingerprint in the cache, the call returns
  the cached response although the only candidate raises; nothing is raised and no failure
  is counted. And in the list Claude, Gemini, Claude with every backend raising, the call
  ends after the first Claude: Gemini is not invoked and its \<open>requests_failed\<close> stays 0.
\<close>

theorem query_all_fail_counterexample:
  "fst (query ex_builtins (hi_cached (\<lambda>p. raising ''boom'')) ''hi'' (Some [GEMINI]) True no_kwargs)
     = Inr (ex_response OPENAI) \<and>
   requests_failed (metrics (fst (snd (query ex_builtins (hi_cached (\<lambda>p. raising ''boom'')) ''hi''
       (Some [GEMINI]) True no_kwargs))) GEMINI) = 0 \<and>
   backend_query (providers (hi_cached (\<lambda>p. raising ''boom'')) GEMINI) (Query_init ''hi'' no_kwargs)
     = Inl ''boom'' \<and>
   backend_query (providers all_down CLAUDE) (Query_init ''hi'' no_kwargs) = Inl ''boom'' \<and>
   backend_query (providers all_down GEMINI) (Query_init ''hi'' no_kwargs) = Inl ''boom'' \<and>
   snd (snd (query ex_builtins all_down ''hi'' (Some [CLAUDE, GEMINI, CLAUDE]) False no_kwargs))
     = [CLAUDE] \<and>
   requests_failed (metrics all_down GEMINI) = 0 \<and>
   requests_failed (metrics (fst (snd (query ex_builtins all_down ''hi''
       (Some [CLAUDE, GEMINI, CLAUDE]) False no_kwargs))) GEMINI) = 0"
  by (simp add: query_def cache_lookup_def candidates_def hi_cached_def all_down_def
        LLMRouter_init_def ProviderMetrics_init_def raising_def on_failure_def)

text \<open>
  Claim C3 (\<open>requests_total = requests_success + requests_failed\<close> in every reachable state)
  does not hold of the code: the failure handler adds one to \<open>requests_failed\<close> and leaves
  \<open>requests_total\<close> alone. After one call on a fresh router whose only candidate raises, the
  counters of that provider are 0 attempts, 0 successes and 1 failure.
\<close>

theorem failure_leaves_requests_total:
  "requests_total (metrics (call_state ex_builtins gemini_down
       (Call_query ''hi'' (Some [GEMINI]) True no_kwargs)) GEMINI) = 0 \<and>
   requests_success (metrics (call_state ex_builtins gemini_down
       (Call_query ''hi'' (Some [GEMINI]) True no_kwargs)) GEMINI) = 0 \<and>
   requests_failed (metrics (call_state ex_builtins gemini_down
       (Call_query ''hi'' (Some [GEMINI]) True no_kwargs)) GEMINI) = 1"
  by (simp add: query_def cache_lookup_def candidates_def gemini_down_def
        LLMRouter_init_def ProviderMetrics_init_def raising_def on_failure_def)

text \<open>
  Claim C4. When the fingerprint of the query is a key of the cache, a call of \<open>query\<close> with
  \<^verbatim>\<open>use_cache=True\<close> returns the cached response, invokes no backend and returns the router
  state as it was: no counter of any provider changes, whatever the candidate list.
\<close>

theorem query_cache_hit:
  "cache s (hash B (Query_init t kw)) = Some r \<Longrightarrow>
     query B s t providers_arg True kw = (Inr r, s, [])"
  by (simp add: query_def cache_lookup_def)

theorem query_cache_hit_witness:
  "cache (hi_cached (\<lambda>p. raising ''boom'')) (hash ex_builtins (Query_init ''hi'' no_kwargs))
     = Some (ex_response OPENAI) \<and>
   query ex_builtins (hi_cached (\<lambda>p. raising ''boom'')) ''hi'' None True no_kwargs
     = (Inr (ex_response OPENAI), hi_cached (\<lambda>p. raising ''boom''), [])"
proof -
  have h: "cache (hi_cached (\<lambda>p. raising ''boom'')) (hash ex_builtins (Query_init ''hi'' no_kwargs))
             = Some (ex_response OPENAI)"
    by (simp add: hi_cached_def)
  from h query_cache_hit [OF h] show ?thesis by simp
qed




text \<open>
  Claim C6, as amended. For an empty candidate list and a call that the cache does not
  answer, \<open>query\<close> raises \<^verbatim>\<open>RuntimeError("No providers available")\<close> with no backend invoked
  and the state unchanged; this error differs from every \<^verbatim>\<open>All providers failed: ...\<close>
  error (both are \<^verbatim>\<open>RuntimeError\<close>; the message tells them apart).
\<close>

theorem query_no_candidates:
  "cache_lookup B s use_cache (Query_init t kw) = None \<Longrightarrow>
     query B s t (Some []) use_cache kw = (Inl (RuntimeError ''No providers available''), s, []) \<and>
     RuntimeError ''No providers available'' \<noteq> RuntimeError (''All providers failed: '' @ e)"
  by (simp add: query_def candidates_def)

theorem query_no_candidates_witness:
  "cache_lookup ex_builtins all_up True (Query_init ''hi'' no_kwargs) = None \<and>
   query ex_builtins all_up ''hi'' (Some []) True no_kwargs
     = (Inl (RuntimeError ''No providers available''), all_up, []) \<and>
   RuntimeError ''No providers available'' \<noteq> RuntimeError (''All providers failed: '' @ ''boom'')"
proof -
  have m: "cache_lookup ex_builtins all_up True (Query_init ''hi'' no_kwargs) = None"
    by (simp add: cache_lookup_def all_up_def LLMRouter_init_def)
  from m query_no_candidates [OF m, of "''boom''"] show ?thesis by simp
qed

text \<open>
  Claim C6 as stated fails when the cache answers: the cache check comes before the
  candidate list is looked at, so a call with an empty list and a cached fingerprint
  returns the cached response instead of raising.
\<close>

theorem query_no_candidates_counterexample:
  "query ex_builtins (hi_cached answering) ''hi'' (Some []) True no_kwargs
     = (Inr (ex_response OPENAI), hi_cached answering, [])"
  by (simp add: query_def cache_lookup_def hi_cached_def)

text \<open>
  Claim C7, as amended. The success branch of the loop, reached at candidate \<open>p\<close> in any
  state \<open>s\<close>: when the backend of \<open>p\<close> answers \<open>r\<close>, the call returns \<open>r\<close>, \<open>requests_total\<close>
  and \<open>requests_success\<close> of \<open>p\<close> go up by one, \<open>total_cost\<close> of \<open>p\<close> grows by the cost of
  \<open>r\<close>, and \<open>last_error\<close> of \<open>p\<close> is left as it was (it is not cleared); the metrics of
  every other provider are untouched.
\<close>

theorem success_updates_metrics:
  assumes "backend_query (providers s p) q = Inr r"
  shows "case try_providers B q all (p # rest) s of
           (res, s', invoked) \<Rightarrow>
             res = Inr r \<and> invoked = [p] \<and>
             requests_total (metrics s' p) = requests_total (metrics s p) + 1 \<and>
             requests_success (metrics s' p) = requests_success (metrics s p) + 1 \<and>
             total_cost (metrics s' p) = total_cost (metrics s p) + cost r \<and>
             last_error (metrics s' p) = last_error (metrics s p) \<and>
             requests_failed (metrics s' p) = requests_failed (metrics s p) \<and>
             (\<forall>x. x \<noteq> p \<longrightarrow> metrics s' x = metrics s x)"
  using assms by (simp add: on_success_def)

theorem success_updates_metrics_witness:
  "backend_query (providers gemini_down OPENAI) (Query_init ''hi'' no_kwargs)
     = Inr (ex_response OPENAI) \<and>
   (case try_providers ex_builtins (Query_init ''hi'' no_kwargs) [GEMINI, OPENAI] (OPENAI # [])
           gemini_down of
      (res, s', invoked) \<Rightarrow>
        res = Inr (ex_response OPENAI) \<and>
        requests_total (metrics s' OPENAI) = 1 \<and>
        requests_success (metrics s' OPENAI) = 1 \<and>
        total_cost (metrics s' OPENAI) = 1 / 50 \<and>
        last_error (metrics s' OPENAI) = None)"
proof -
  have g: "backend_query (providers gemini_down OPENAI) (Query_init ''hi'' no_kwargs)
             = Inr (ex_response OPENAI)"
    by (simp add: gemini_down_def LLMRouter_init_def answering_def)
  have z: "metrics gemini_down OPENAI = ProviderMetrics_init ''t0'' OPENAI"
    by (simp add: gemini_down_def LLMRouter_init_def)
  from success_updates_metrics [OF g, of ex_builtins "[GEMINI, OPENAI]" "[]"] g z show ?thesis
    by (auto simp: ProviderMetrics_init_def ex_response_def split: prod.splits)
qed

text \<open>
  Claim C7 as stated fails on \<open>last_error\<close>: Gemini raises in a first call, its backend is
  then replaced by one that answers, and after the successful second call the error of
  the first is still recorded.
\<close>

theorem success_keeps_last_error_counterexample:
  "fst (query ex_builtins
          (run_calls ex_builtins gemini_down
             [Call_query ''hi'' (Some [GEMINI]) True no_kwargs,
              Set_backend GEMINI (answering GEMINI)])
          ''hi'' (Some [GEMINI]) True no_kwargs) = Inr (ex_response GEMINI) \<and>
   requests_success (metrics (fst (snd (query ex_builtins
          (run_calls ex_builtins gemini_down
             [Call_query ''hi'' (Some [GEMINI]) True no_kwargs,
              Set_backend GEMINI (answering GEMINI)])
          ''hi'' (Some [GEMINI]) True no_kwargs))) GEMINI) = 1 \<and>
   last_error (metrics (fst (snd (query ex_builtins
          (run_calls ex_builtins gemini_down
             [Call_query ''hi'' (Some [GEMINI]) True no_kwargs,
              Set_backend GEMINI (answering GEMINI)])
          ''hi'' (Some [GEMINI]) True no_kwargs))) GEMINI) = Some ''boom''"
  by (simp add: run_calls_def query_def cache_lookup_def candidates_def gemini_down_def
        LLMRouter_init_def ProviderMetrics_init_def raising_def answering_def
        on_failure_def on_success_def)

text \<open>
  Claim C8. When the probe of backend \<open>b\<close> raises, \<open>health_check\<close> still probes all three
  backends, reports \<open>False\<close> for \<open>b\<close> and sets its status to \<open>UNHEALTHY\<close>; every backend gets
  an entry in the result, the value its own probe returned (\<open>False\<close> when it raised), and a
  status that follows that entry.
\<close>

theorem health_check_isolates_failures:
  assumes "backend_health_check (providers s b) = Inl e"
  shows "case health_check s of
           (health, s', probed) \<Rightarrow>
             health b = Some False \<and>
             status (metrics s' b) = UNHEALTHY \<and>
             probed = [GEMINI, CLAUDE, OPENAI] \<and>
             (\<forall>x. health x = Some (case backend_health_check (providers s x) of
                                     Inr ok \<Rightarrow> ok | Inl e' \<Rightarrow> False)) \<and>
             (\<forall>x. status (metrics s' x)
                    = (if health x = Some True then HEALTHY else UNHEALTHY))"
proof -
  obtain health s' probed where
    h: "health_check_loop provider_names Map.empty s = (health, s', probed)"
    by (cases "health_check_loop provider_names Map.empty s") auto
  have all: "x \<in> set provider_names" for x
    by (cases x) (simp_all add: provider_names_def)
  from health_check_loop_spec [OF h] all
  have p: "probed = provider_names"
    and hx: "\<And>x. health x = Some (case backend_health_check (providers s x) of
                                     Inr ok \<Rightarrow> ok | Inl e' \<Rightarrow> False)"
    and mx: "\<And>x. metrics s' x = (metrics s x)\<lparr>status :=
                    (case backend_health_check (providers s x) of
                       Inr ok \<Rightarrow> if ok then HEALTHY else UNHEALTHY | Inl e \<Rightarrow> UNHEALTHY)\<rparr>"
    by simp_all
  have st: "status (metrics s' x) = (if health x = Some True then HEALTHY else UNHEALTHY)" for x
    by (simp add: hx mx split: sum.splits)
  from assms have "health b = Some False" by (simp add: hx)
  moreover from this have "status (metrics s' b) = UNHEALTHY" by (simp add: st)
  ultimately show ?thesis
    using h p hx st by (simp add: health_check_def provider_names_def)
qed

theorem health_check_isolates_failures_witness:
  "backend_health_check (providers claude_down CLAUDE) = Inl ''boom'' \<and>
   (case health_check claude_down of
      (health, s', probed) \<Rightarrow>
        health CLAUDE = Some False \<and> health GEMINI = Some True \<and> health OPENAI = Some True \<and>
        status (metrics s' CLAUDE) = UNHEALTHY \<and>
        status (metrics s' GEMINI) = HEALTHY \<and>
        status (metrics s' OPENAI) = HEALTHY \<and>
        probed = [GEMINI, CLAUDE, OPENAI])"
proof -
  have a: "backend_health_check (providers claude_down CLAUDE) = Inl ''boom''"
    by (simp add: claude_down_def LLMRouter_init_def raising_def)
  have b: "backend_health_check (providers claude_down GEMINI) = Inr True"
          "backend_health_check (providers claude_down OPENAI) = Inr True"
    by (simp_all add: claude_down_def LLMRouter_init_def answering_def)
  from health_check_isolates_failures [OF a] a b show ?thesis
    by (auto split: prod.splits)
qed

text \<open>
  Claim C9. A call of \<open>query\<close> leaves the status of every provider as it was, whatever the
  arguments and however many failures it records; \<open>clear_cache\<close> does so too. Of the methods
  that write state, only \<open>health_check\<close> assigns \<open>status\<close>.
\<close>

theorem query_keeps_status:
  "status (metrics (fst (snd (query B s t providers_arg use_cache kw))) p) = status (metrics s p) \<and>
   status (metrics (clear_cache s) p) = status (metrics s p)"
proof -
  obtain res s' invoked where q: "query B s t providers_arg use_cache kw = (res, s', invoked)"
    by (cases "query B s t providers_arg use_cache kw") auto
  from query_frame [OF q] q show ?thesis
    by (simp add: clear_cache_def)
qed

theorem query_keeps_status_witness:
  "requests_failed (metrics (fst (snd (query ex_builtins all_down ''hi'' None True no_kwargs))) GEMINI) = 1 \<and>
   status (metrics (fst (snd (query ex_builtins all_down ''hi'' None True no_kwargs))) GEMINI) = HEALTHY \<and>
   status (metrics all_down GEMINI) = HEALTHY"
proof -
  have a: "status (metrics all_down GEMINI) = HEALTHY"
    by (simp add: all_down_def LLMRouter_init_def ProviderMetrics_init_def)
  have b: "requests_failed (metrics (fst (snd (query ex_builtins all_down ''hi'' None True no_kwargs))) GEMINI) = 1"
    by (simp add: query_def cache_lookup_def candidates_def get_default_providers_def all_down_def
          LLMRouter_init_def ProviderMetrics_init_def raising_def on_failure_def)
  from query_keeps_status [of ex_builtins all_down "''hi''" None True no_kwargs GEMINI] a b
  show ?thesis by simp
qed

text \<open>
  Claim C10. From a router constructed with fresh metrics, after any sequence of calls
  (queries that succeed or fail, health sweeps, cache clears, backends replaced in
  between), every provider has \<open>requests_total = requests_success\<close>, hence a success rate
  of 1 and, while its status is \<open>HEALTHY\<close>, an availability of 1.
\<close>

theorem total_equals_success_after_calls:
  assumes "s = run_calls B (LLMRouter_init backends now) cs"
  shows "requests_total (metrics s p) = requests_success (metrics s p) \<and>
         success_rate (metrics s p) = 1 \<and>
         (status (metrics s p) = HEALTHY \<longrightarrow> availability (metrics s p) = 1)"
proof -
  have "requests_total (metrics s p) - requests_success (metrics s p)
          = requests_total (metrics (LLMRouter_init backends now) p)
            - requests_success (metrics (LLMRouter_init backends now) p)"
    unfolding assms by (rule run_calls_total_minus_success)
  then have eq: "requests_total (metrics s p) = requests_success (metrics s p)"
    by (simp add: LLMRouter_init_def ProviderMetrics_init_def)
  then have sr: "success_rate (metrics s p) = 1"
    by (simp add: success_rate_def)
  then have "status (metrics s p) = HEALTHY \<longrightarrow> availability (metrics s p) = 1"
    by (simp add: availability_def)
  with eq sr show ?thesis by simp
qed

theorem total_equals_success_after_calls_witness:
  "requests_failed (metrics (run_calls ex_builtins (LLMRouter_init (\<lambda>p. raising ''boom'') ''t0'')
      [Call_query ''hi'' None True no_kwargs, Call_query ''again'' (Some [GEMINI]) False no_kwargs])
      GEMINI) = 2 \<and>
   requests_total (metrics (run_calls ex_builtins (LLMRouter_init (\<lambda>p. raising ''boom'') ''t0'')
      [Call_query ''hi'' None True no_kwargs, Call_query ''again'' (Some [GEMINI]) False no_kwargs])
      GEMINI) = 0 \<and>
   success_rate (metrics (run_calls ex_builtins (LLMRouter_init (\<lambda>p. raising ''boom'') ''t0'')
      [Call_query ''hi'' None True no_kwargs, Call_query ''again'' (Some [GEMINI]) False no_kwargs])
      GEMINI) = 1 \<and>
   status (metrics (run_calls ex_builtins (LLMRouter_init (\<lambda>p. raising ''boom'') ''t0'')
      [Call_query ''hi'' None True no_kwargs, Call_query ''again'' (Some [GEMINI]) False no_kwargs])
      GEMINI) = HEALTHY \<and>
   availability (metrics (run_calls ex_builtins (LLMRouter_init (\<lambda>p. raising ''boom'') ''t0'')
      [Call_query ''hi'' None True no_kwargs, Call_query ''again'' (Some [GEMINI]) False no_kwargs])
      GEMINI) = 1"
proof -
  let ?s = "run_calls ex_builtins (LLMRouter_init (\<lambda>p. raising ''boom'') ''t0'')
      [Call_query ''hi'' None True no_kwargs, Call_query ''again'' (Some [GEMINI]) False no_kwargs]"
  have f: "requests_failed (metrics ?s GEMINI) = 2"
    by (simp add: run_calls_def query_def cache_lookup_def candidates_def get_default_providers_def
          LLMRouter_init_def ProviderMetrics_init_def raising_def on_failure_def)
  have t: "requests_success (metrics ?s GEMINI) = 0"
    by (simp add: run_calls_def query_def cache_lookup_def candidates_def get_default_providers_def
          LLMRouter_init_def ProviderMetrics_init_def raising_def on_failure_def)
  have h: "status (metrics ?s GEMINI) = HEALTHY"
    by (simp add: run_calls_def query_def cache_lookup_def candidates_def get_default_providers_def
          LLMRouter_init_def ProviderMetrics_init_def raising_def on_failure_def)
  from total_equals_success_after_calls [where s = ?s and p = GEMINI, OF refl] f t h
  show ?thesis by simp
qed

end
